theory Spec2Isabelle
  imports Main
begin

section \<open>Text and character classes\<close>

text \<open>
  Texts are lists of characters; a character stands for the code point of the same
  number (0 to 255). The classes below are the ones Python's \<^verbatim>\<open>re\<close> uses for
  \<^verbatim>\<open>str\<close> patterns, restricted to these code points.
\<close>

definition code :: "char \<Rightarrow> nat" where
  "code c = of_char c"

definition is_digit :: "char \<Rightarrow> bool" where
  "is_digit c = (48 \<le> code c \<and> code c \<le> 57)"

definition is_space :: "char \<Rightarrow> bool" where
  "is_space c = ((9 \<le> code c \<and> code c \<le> 13) \<or> (28 \<le> code c \<and> code c \<le> 32)
     \<or> code c = 133 \<or> code c = 160)"

definition is_upper :: "char \<Rightarrow> bool" where
  "is_upper c = (65 \<le> code c \<and> code c \<le> 90)"

definition is_lower :: "char \<Rightarrow> bool" where
  "is_lower c = (97 \<le> code c \<and> code c \<le> 122)"

definition is_word :: "char \<Rightarrow> bool" where
  "is_word c = (is_digit c \<or> is_upper c \<or> is_lower c \<or> code c = 95
     \<or> code c = 170 \<or> code c = 178 \<or> code c = 179 \<or> code c = 181
     \<or> code c = 185 \<or> code c = 186 \<or> (188 \<le> code c \<and> code c \<le> 190)
     \<or> (192 \<le> code c \<and> code c \<le> 214) \<or> (216 \<le> code c \<and> code c \<le> 246)
     \<or> 248 \<le> code c)"

text \<open>
  Matching without regard to case compares lowered characters. Every letter of the
  patterns and placeholders of the source is an ASCII letter, and below 256 only an ASCII
  letter is equal to one of them in this sense, so only the ASCII capitals are lowered.
\<close>

definition lower :: "char \<Rightarrow> char" where
  "lower c = (if is_upper c then char_of (code c + 32) else c)"

section \<open>Regular expressions\<close>

text \<open>
  The part of the pattern language that the source uses. An item of a character class
  is a character, \<^verbatim>\<open>\d\<close> or \<^verbatim>\<open>\s\<close>; a class is a set of items or its complement. A
  regular expression is empty, one character of a class, a greedy repetition of a class
  (at least \<open>lo\<close> times and, with \<open>Some hi\<close>, at most \<open>hi\<close> times), a sequence, an
  alternation that prefers its left side, a greedy option, a numbered group, or the word
  boundary \<^verbatim>\<open>\b\<close>.
\<close>

datatype item = Ch char | Dig | Spc

datatype cls = In "item list" | NotIn "item list"

datatype re =
    Eps
  | Sym cls
  | Many cls nat "nat option"
  | Seq re re
  | Alt re re
  | Opt re
  | Grp nat re
  | WordB

fun item_match :: "bool \<Rightarrow> item \<Rightarrow> char \<Rightarrow> bool" where
  "item_match ic (Ch a) c = (if ic then lower c = lower a else c = a)"
| "item_match ic Dig c = is_digit c"
| "item_match ic Spc c = is_space c"

fun cls_match :: "bool \<Rightarrow> cls \<Rightarrow> char \<Rightarrow> bool" where
  "cls_match ic (In its) c = (\<exists>i \<in> set its. item_match ic i c)"
| "cls_match ic (NotIn its) c = (\<not> (\<exists>i \<in> set its. item_match ic i c))"

text \<open>
  The matcher backtracks as Python's does. Its state is the character before the
  current position, the rest of the text and the groups captured so far; the
  continuation \<open>k\<close> is the rest of the pattern, and \<open>None\<close> makes the matcher try its
  next choice. A repetition first takes as many characters as it may and gives them back
  one at a time.
\<close>

type_synonym caps = "nat \<rightharpoonup> string"
type_synonym mstate = "char option \<times> string \<times> caps"

primrec try_down :: "nat \<Rightarrow> (nat \<Rightarrow> 'a option) \<Rightarrow> nat \<Rightarrow> 'a option" where
  "try_down lo f 0 = (if lo = 0 then f 0 else None)"
| "try_down lo f (Suc j) =
     (if Suc j < lo then None
      else case f (Suc j) of Some r \<Rightarrow> Some r | None \<Rightarrow> try_down lo f j)"

definition advance :: "nat \<Rightarrow> mstate \<Rightarrow> mstate" where
  "advance j st = (case st of (p, s, g) \<Rightarrow>
     (if j = 0 then p else Some (s ! (j - 1)), drop j s, g))"

definition at_boundary :: "char option \<Rightarrow> string \<Rightarrow> bool" where
  "at_boundary p s =
     ((case p of None \<Rightarrow> False | Some c \<Rightarrow> is_word c)
      \<noteq> (case s of [] \<Rightarrow> False | c # _ \<Rightarrow> is_word c))"

primrec match_re :: "bool \<Rightarrow> re \<Rightarrow> (mstate \<Rightarrow> 'a option) \<Rightarrow> mstate \<Rightarrow> 'a option" where
  "match_re ic Eps k st = k st"
| "match_re ic (Sym c) k st = (case st of (p, s, g) \<Rightarrow>
     (case s of [] \<Rightarrow> None
      | x # xs \<Rightarrow> if cls_match ic c x then k (Some x, xs, g) else None))"
| "match_re ic (Many c lo hi) k st = (case st of (p, s, g) \<Rightarrow>
     (let run = length (takeWhile (cls_match ic c) s);
          n = (case hi of None \<Rightarrow> run | Some h \<Rightarrow> min run h)
      in try_down lo (\<lambda>j. k (advance j st)) n))"
| "match_re ic (Seq a b) k st = match_re ic a (match_re ic b k) st"
| "match_re ic (Alt a b) k st =
     (case match_re ic a k st of Some r \<Rightarrow> Some r | None \<Rightarrow> match_re ic b k st)"
| "match_re ic (Opt a) k st =
     (case match_re ic a k st of Some r \<Rightarrow> Some r | None \<Rightarrow> k st)"
| "match_re ic (Grp i a) k st = (case st of (p, s, g) \<Rightarrow>
     match_re ic a (\<lambda>st'. case st' of (p', s', g') \<Rightarrow>
        k (p', s', g'(i \<mapsto> take (length s - length s') s))) st)"
| "match_re ic WordB k st = (case st of (p, s, g) \<Rightarrow>
     if at_boundary p s then k st else None)"

text \<open>
  \<^verbatim>\<open>pattern.search(text)\<close>: the match at the leftmost position where there is one. The
  result is \<^verbatim>\<open>match.groups()\<close>, one entry for each group of the pattern, \<open>None\<close> for a
  group that took no part in the match.
\<close>

definition accept :: "mstate \<Rightarrow> caps option" where
  "accept st = (case st of (p, s, g) \<Rightarrow> Some g)"

fun search_from :: "bool \<Rightarrow> re \<Rightarrow> char option \<Rightarrow> string \<Rightarrow> caps option" where
  "search_from ic r p [] = match_re ic r accept (p, [], Map.empty)"
| "search_from ic r p (c # cs) =
     (case match_re ic r accept (p, c # cs, Map.empty) of
        Some g \<Rightarrow> Some g
      | None \<Rightarrow> search_from ic r (Some c) cs)"

record pattern =
  body :: re
  ngroups :: nat
  ignorecase :: bool

definition search :: "pattern \<Rightarrow> string \<Rightarrow> string option list option" where
  "search pt text =
     (case search_from (ignorecase pt) (body pt) None text of
        None \<Rightarrow> None
      | Some g \<Rightarrow> Some (map g [1 ..< Suc (ngroups pt)]))"

text \<open>A literal text, and a sequence of several expressions.\<close>

fun lit :: "string \<Rightarrow> re" where
  "lit [] = Eps"
| "lit (c # cs) = Seq (Sym (In [Ch c])) (lit cs)"

fun cat :: "re list \<Rightarrow> re" where
  "cat [] = Eps"
| "cat (r # rs) = Seq r (cat rs)"

abbreviation digits1 :: re where
  "digits1 \<equiv> Many (In [Dig]) 1 None"

abbreviation spaces0 :: re where
  "spaces0 \<equiv> Many (In [Spc]) 0 None"

definition compile :: "re \<Rightarrow> nat \<Rightarrow> bool \<Rightarrow> pattern" where
  "compile r n ic = \<lparr>body = r, ngroups = n, ignorecase = ic\<rparr>"

section \<open>The pattern tables of \<^verbatim>\<open>plugins/file_rename.py\<close>\<close>

subsection \<open>Season and episode\<close>

text \<open>
  The seven regular expressions of \<^verbatim>\<open>SEASON_EPISODE_PATTERNS\<close>, in the order of the
  source; the third and the sixth are compiled with \<^verbatim>\<open>re.IGNORECASE\<close>.
  \<^verbatim>\<open>(?:E|EP)\<close> is an alternation that tries \<^verbatim>\<open>E\<close> first.

  \<^enum> \<^verbatim>\<open>S(\d+)(?:E|EP)(\d+)\<close>
  \<^enum> \<^verbatim>\<open>S(\d+)[\s-]*(?:E|EP)(\d+)\<close>
  \<^enum> \<^verbatim>\<open>Season\s*(\d+)\s*Episode\s*(\d+)\<close>
  \<^enum> \<^verbatim>\<open>\[S(\d+)\]\[E(\d+)\]\<close>
  \<^enum> \<^verbatim>\<open>S(\d+)[^\d]*(\d+)\<close>
  \<^enum> \<^verbatim>\<open>(?:E|EP|Episode)\s*(\d+)\<close>
  \<^enum> \<^verbatim>\<open>\b(\d+)\b\<close>
\<close>

definition se_re1 :: pattern where
  "se_re1 = compile (cat [lit ''S'', Grp 1 digits1, Alt (lit ''E'') (lit ''EP''),
     Grp 2 digits1]) 2 False"

definition se_re2 :: pattern where
  "se_re2 = compile (cat [lit ''S'', Grp 1 digits1, Many (In [Spc, Ch CHR ''-'']) 0 None,
     Alt (lit ''E'') (lit ''EP''), Grp 2 digits1]) 2 False"

definition se_re3 :: pattern where
  "se_re3 = compile (cat [lit ''Season'', spaces0, Grp 1 digits1, spaces0,
     lit ''Episode'', spaces0, Grp 2 digits1]) 2 True"

definition se_re4 :: pattern where
  "se_re4 = compile (cat [lit ''[S'', Grp 1 digits1, lit ''][E'', Grp 2 digits1,
     lit '']'']) 2 False"

definition se_re5 :: pattern where
  "se_re5 = compile (cat [lit ''S'', Grp 1 digits1, Many (NotIn [Dig]) 0 None,
     Grp 2 digits1]) 2 False"

definition se_re6 :: pattern where
  "se_re6 = compile (cat [Alt (lit ''E'') (Alt (lit ''EP'') (lit ''Episode'')), spaces0,
     Grp 1 digits1]) 1 True"

definition se_re7 :: pattern where
  "se_re7 = compile (cat [WordB, Grp 1 digits1, WordB]) 1 False"

text \<open>
  The list literal of the source is malformed. Lines 32 to 36 each hold one compiled
  pattern behind an opening parenthesis that is never closed; lines 37 and 38 each hold
  a complete pair of a compiled pattern and the tuple \<^verbatim>\<open>(None, 'episode')\<close>. The table
  is modelled entry by entry as the lines stand: five patterns, then two pairs.
\<close>

datatype entry = Compiled pattern | Pair pattern "string option \<times> string option"

definition SEASON_EPISODE_PATTERNS :: "entry list" where
  "SEASON_EPISODE_PATTERNS =
     [Compiled se_re1, Compiled se_re2, Compiled se_re3, Compiled se_re4, Compiled se_re5,
      Pair se_re6 (None, Some ''episode''),
      Pair se_re7 (None, Some ''episode'')]"

datatype pyerror =
    AttributeError
  | TypeError
  | ReError
  | IndexError
  | RuntimeError string
  | UnicodeDecodeError "nat list"
  | FloodWait nat
  | OtherError string

text \<open>
  \<^verbatim>\<open>extract_season_episode\<close> calls \<^verbatim>\<open>pattern.search(text)\<close> on each entry of the
  table. A compiled pattern has that method; a tuple has not, and the call raises
  \<^verbatim>\<open>AttributeError\<close>. On a match, \<^verbatim>\<open>groups\<close> is the tuple of all groups of the
  pattern.
\<close>

definition season_of :: "string option list \<Rightarrow> string option" where
  "season_of groups = (if length groups > 0 then groups ! 0 else None)"

definition episode_of :: "string option list \<Rightarrow> string option" where
  "episode_of groups =
     (if length groups > 1 then groups ! 1
      else if length groups > 0 then groups ! 0 else None)"

fun extract_loop :: "entry list \<Rightarrow> string \<Rightarrow> pyerror + (string option \<times> string option)" where
  "extract_loop [] text = Inr (None, None)"
| "extract_loop (Compiled pt # rest) text =
     (case search pt text of
        Some groups \<Rightarrow> Inr (season_of groups, episode_of groups)
      | None \<Rightarrow> extract_loop rest text)"
| "extract_loop (Pair pt spec # rest) text = Inl AttributeError"

definition extract_season_episode :: "string \<Rightarrow> pyerror + (string option \<times> string option)" where
  "extract_season_episode text = extract_loop SEASON_EPISODE_PATTERNS text"

subsection \<open>Quality\<close>

text \<open>
  An extractor is the lambda stored beside a pattern; \<^verbatim>\<open>m.group(1)\<close> is \<^verbatim>\<open>None\<close> when
  the group took no part in the match.
\<close>

datatype extractor = Group1 | Const string | Group1Bed

fun group1 :: "string option list \<Rightarrow> string option" where
  "group1 [] = None"
| "group1 (g # gs) = g"

fun run_extractor :: "extractor \<Rightarrow> string option list \<Rightarrow> string option" where
  "run_extractor Group1 groups = group1 groups"
| "run_extractor (Const s) groups = Some s"
| "run_extractor Group1Bed groups =
     (case group1 groups of None \<Rightarrow> Some ''Nonebed'' | Some s \<Rightarrow> Some (s @ ''bed''))"

text \<open>
  \<^verbatim>\<open>QUALITY_PATTERNS\<close>, all compiled with \<^verbatim>\<open>re.IGNORECASE\<close>; \<open>resolution\<close> is
  \<^verbatim>\<open>\d{3,4}[pi]\<close>.

  \<^enum> \<^verbatim>\<open>\b(\d{3,4}[pi])\b\<close>, group 1
  \<^enum> \<^verbatim>\<open>\b(4k|2160p)\b\<close>, the constant \<^verbatim>\<open>4k\<close>
  \<^enum> \<^verbatim>\<open>\b(2k|1440p)\b\<close>, the constant \<^verbatim>\<open>2k\<close>
  \<^enum> \<^verbatim>\<open>\b(HDRip|HDTV)\b\<close>, group 1
  \<^enum> \<^verbatim>\<open>\b(4kX264|4kx265)\b\<close>, group 1
  \<^enum> \<^verbatim>\<open>\[(\d{3,4}[pi])\]\<close>, group 1
\<close>

abbreviation resolution :: re where
  "resolution \<equiv> Seq (Many (In [Dig]) 3 (Some 4)) (Sym (In [Ch CHR ''p'', Ch CHR ''i'']))"

definition QUALITY_PATTERNS :: "(pattern \<times> extractor) list" where
  "QUALITY_PATTERNS =
     [(compile (cat [WordB, Grp 1 resolution, WordB]) 1 True, Group1),
      (compile (cat [WordB, Grp 1 (Alt (lit ''4k'') (lit ''2160p'')), WordB]) 1 True,
         Const ''4k''),
      (compile (cat [WordB, Grp 1 (Alt (lit ''2k'') (lit ''1440p'')), WordB]) 1 True,
         Const ''2k''),
      (compile (cat [WordB, Grp 1 (Alt (lit ''HDRip'') (lit ''HDTV'')), WordB]) 1 True,
         Group1),
      (compile (cat [WordB, Grp 1 (Alt (lit ''4kX264'') (lit ''4kx265'')), WordB]) 1 True,
         Group1),
      (compile (cat [lit ''['', Grp 1 resolution, lit '']'']) 1 True, Group1)]"

fun first_match :: "(pattern \<times> extractor) list \<Rightarrow> string \<Rightarrow> string option option" where
  "first_match [] text = None"
| "first_match ((pt, ex) # rest) text =
     (case search pt text of
        Some groups \<Rightarrow> Some (run_extractor ex groups)
      | None \<Rightarrow> first_match rest text)"

text \<open>The result is a Python value: a string, or \<^verbatim>\<open>None\<close> (\<open>None\<close> here).\<close>

definition extract_quality :: "string \<Rightarrow> string option" where
  "extract_quality text =
     (case first_match QUALITY_PATTERNS text of
        Some quality \<Rightarrow> quality
      | None \<Rightarrow> Some ''Unknown'')"

subsection \<open>Audio\<close>

text \<open>
  \<^verbatim>\<open>AUDIO_PATTERNS\<close>; the first four and the seventh are compiled with
  \<^verbatim>\<open>re.IGNORECASE\<close>. \<open>dash_or_space_opt\<close> is \<^verbatim>\<open>[-\s]?\<close>.

  \<^enum> \<^verbatim>\<open>\b(Multi|Dual)[-\s]?Audio\b\<close>, the constant \<^verbatim>\<open>Multi\<close>
  \<^enum> \<^verbatim>\<open>\b(Dual)[-\s]?(Audio|Track)\b\<close>, the constant \<^verbatim>\<open>Dual\<close>
  \<^enum> \<^verbatim>\<open>\b(Sub(bed)?)\b\<close>, the constant \<^verbatim>\<open>Sub\<close>
  \<^enum> \<^verbatim>\<open>\b(Dub(bed)?)\b\<close>, the constant \<^verbatim>\<open>Dub\<close>
  \<^enum> \<^verbatim>\<open>\[(Sub|Dub)\]\<close>, group 1 followed by \<^verbatim>\<open>bed\<close>
  \<^enum> \<^verbatim>\<open>\((Sub|Dub)\)\<close>, group 1 followed by \<^verbatim>\<open>bed\<close>
  \<^enum> \<^verbatim>\<open>\b(Eng(lish)?\s*/\s*(Jap|Kor|Chi))\b\<close>, the constant \<^verbatim>\<open>Dual\<close>
  \<^enum> \<^verbatim>\<open>\b(TrueHD|DTS[- ]?HD|Atmos)\b\<close>, group 1
  \<^enum> \<^verbatim>\<open>\[(Unknown)\]\<close>, group 1
\<close>

abbreviation dash_or_space_opt :: re where
  "dash_or_space_opt \<equiv> Many (In [Ch CHR ''-'', Spc]) 0 (Some 1)"

definition AUDIO_PATTERNS :: "(pattern \<times> extractor) list" where
  "AUDIO_PATTERNS =
     [(compile (cat [WordB, Grp 1 (Alt (lit ''Multi'') (lit ''Dual'')), dash_or_space_opt,
         lit ''Audio'', WordB]) 1 True, Const ''Multi''),
      (compile (cat [WordB, Grp 1 (lit ''Dual''), dash_or_space_opt,
         Grp 2 (Alt (lit ''Audio'') (lit ''Track'')), WordB]) 2 True, Const ''Dual''),
      (compile (cat [WordB, Grp 1 (Seq (lit ''Sub'') (Opt (Grp 2 (lit ''bed'')))), WordB])
         2 True, Const ''Sub''),
      (compile (cat [WordB, Grp 1 (Seq (lit ''Dub'') (Opt (Grp 2 (lit ''bed'')))), WordB])
         2 True, Const ''Dub''),
      (compile (cat [lit ''['', Grp 1 (Alt (lit ''Sub'') (lit ''Dub'')), lit '']'']) 1 False,
         Group1Bed),
      (compile (cat [lit ''('', Grp 1 (Alt (lit ''Sub'') (lit ''Dub'')), lit '')'']) 1 False,
         Group1Bed),
      (compile (cat [WordB, Grp 1 (cat [lit ''Eng'', Opt (Grp 2 (lit ''lish'')), spaces0,
         lit ''/'', spaces0,
         Grp 3 (Alt (lit ''Jap'') (Alt (lit ''Kor'') (lit ''Chi'')))]), WordB]) 3 True,
         Const ''Dual''),
      (compile (cat [WordB, Grp 1 (Alt (lit ''TrueHD'')
         (Alt (cat [lit ''DTS'', Many (In [Ch CHR ''-'', Ch CHR '' '']) 0 (Some 1), lit ''HD''])
              (lit ''Atmos''))), WordB]) 1 False, Group1),
      (compile (cat [lit ''['', Grp 1 (lit ''Unknown''), lit '']'']) 1 False, Group1)]"

definition extract_audio_info :: "string \<Rightarrow> string option" where
  "extract_audio_info text =
     (case first_match AUDIO_PATTERNS text of
        Some audio_info \<Rightarrow> audio_info
      | None \<Rightarrow> None)"

section \<open>Template rendering\<close>

subsection \<open>\<^verbatim>\<open>re.sub\<close> with an escaped literal pattern\<close>

text \<open>
  \<^verbatim>\<open>re.sub(re.escape(placeholder), value, format_template, flags=re.IGNORECASE)\<close>
  replaces, from left to right, every occurrence of the placeholder text that does not
  overlap an earlier one, comparing letters without regard to case. The replacement
  is a template: Python parses it before it matches anything, and a backslash in it
  starts an escape, which may be malformed. Only \<^verbatim>\<open>\g<0>\<close> can name a group, since an
  escaped literal has none.
\<close>

fun ci_prefix :: "string \<Rightarrow> string \<Rightarrow> bool" where
  "ci_prefix [] s = True"
| "ci_prefix (a # as) [] = False"
| "ci_prefix (a # as) (c # cs) = (lower c = lower a \<and> ci_prefix as cs)"

datatype part = Literal string | WholeMatch

definition is_octal :: "char \<Rightarrow> bool" where
  "is_octal c = (48 \<le> code c \<and> code c \<le> 55)"

definition digit_val :: "char \<Rightarrow> nat" where
  "digit_val c = code c - 48"

definition is_ascii_letter :: "char \<Rightarrow> bool" where
  "is_ascii_letter c = (is_upper c \<or> is_lower c)"

definition is_id_start :: "char \<Rightarrow> bool" where
  "is_id_start c = (is_ascii_letter c \<or> code c = 95 \<or> code c = 170 \<or> code c = 181
     \<or> code c = 186 \<or> (192 \<le> code c \<and> code c \<le> 214)
     \<or> (216 \<le> code c \<and> code c \<le> 246) \<or> 248 \<le> code c)"

definition is_identifier :: "string \<Rightarrow> bool" where
  "is_identifier name = (case name of [] \<Rightarrow> False
     | c # cs \<Rightarrow> is_id_start c \<and> (\<forall>d \<in> set cs. is_id_start d \<or> is_digit d \<or> code d = 183))"

definition simple_escape :: "char \<Rightarrow> char option" where
  "simple_escape c =
     (if c = CHR ''a'' then Some (char_of (7::nat))
      else if c = CHR ''b'' then Some (char_of (8::nat))
      else if c = CHR ''f'' then Some (char_of (12::nat))
      else if c = CHR ''n'' then Some (char_of (10::nat))
      else if c = CHR ''r'' then Some (char_of (13::nat))
      else if c = CHR ''t'' then Some (char_of (9::nat))
      else if c = CHR ''v'' then Some (char_of (11::nat))
      else if c = CHR 0x5C then Some (CHR 0x5C)
      else None)"

text \<open>
  \<open>group_ref name\<close> is the reference \<^verbatim>\<open>\g<name>\<close>: an identifier names no group of the
  pattern (\<^verbatim>\<open>IndexError\<close>), a decimal number other than zero is an invalid group
  reference, anything else is a bad group name.
\<close>

definition group_ref :: "string \<Rightarrow> pyerror + part" where
  "group_ref name =
     (if name = [] then Inl ReError
      else if is_identifier name then Inl IndexError
      else if (\<forall>c \<in> set name. is_digit c) then
        (if (\<forall>c \<in> set name. c = CHR ''0'') then Inr WholeMatch else Inl ReError)
      else Inl ReError)"

definition cons_part :: "pyerror + part \<Rightarrow> pyerror + part list \<Rightarrow> pyerror + part list" where
  "cons_part x rest =
     (case x of Inl e \<Rightarrow> Inl e
      | Inr a \<Rightarrow> (case rest of Inl e \<Rightarrow> Inl e | Inr as \<Rightarrow> Inr (a # as)))"

text \<open>
  The parts of a replacement, read from left to right; the first malformed escape is the
  error. After a backslash come \<^verbatim>\<open>g<name>\<close>, an octal escape (a zero with up to two
  more octal digits, or three octal digits), another digit (a group that the pattern
  does not have), one of the escapes for control characters, or any other character,
  which stays with its backslash unless it is an ASCII letter.
\<close>

function parse_template :: "string \<Rightarrow> pyerror + part list" where
  "parse_template [] = Inr []"
| "parse_template (c # cs) =
     (if c \<noteq> CHR 0x5C then cons_part (Inr (Literal [c])) (parse_template cs)
      else case cs of
        [] \<Rightarrow> Inl ReError
      | d # ds \<Rightarrow>
          if d = CHR ''g'' then
            (case ds of
               [] \<Rightarrow> Inl ReError
             | b # es \<Rightarrow>
                 if b \<noteq> CHR ''<'' then Inl ReError
                 else if dropWhile (\<lambda>x. x \<noteq> CHR ''>'') es = [] then Inl ReError
                 else cons_part (group_ref (takeWhile (\<lambda>x. x \<noteq> CHR ''>'') es))
                        (parse_template (tl (dropWhile (\<lambda>x. x \<noteq> CHR ''>'') es))))
          else if d = CHR ''0'' then
            (let oct = takeWhile is_octal (take 2 ds);
                 v = foldl (\<lambda>a x. 8 * a + digit_val x) 0 oct
             in cons_part (Inr (Literal [char_of (v mod 256)]))
                  (parse_template (drop (length oct) ds)))
          else if is_digit d then
            (case ds of
               e # f # fs \<Rightarrow>
                 if is_octal d \<and> is_octal e \<and> is_octal f then
                   (let v = 64 * digit_val d + 8 * digit_val e + digit_val f
                    in if v > 255 then Inl ReError
                       else cons_part (Inr (Literal [char_of v])) (parse_template fs))
                 else Inl ReError
             | _ \<Rightarrow> Inl ReError)
          else
            (case simple_escape d of
               Some x \<Rightarrow> cons_part (Inr (Literal [x])) (parse_template ds)
             | None \<Rightarrow>
                 if is_ascii_letter d then Inl ReError
                 else cons_part (Inr (Literal [c, d])) (parse_template ds)))"
  by pat_completeness auto
termination
proof (relation "measure length", goal_cases)
  case (3 c cs d ds b es)
  have "length (tl (dropWhile (\<lambda>x. x \<noteq> CHR ''>'') es)) \<le> length es"
    by (simp add: le_trans [OF diff_le_self length_dropWhile_le])
  then show ?case using 3 by simp
qed simp_all

fun expand :: "part list \<Rightarrow> string \<Rightarrow> string" where
  "expand [] matched = []"
| "expand (Literal s # ps) matched = s @ expand ps matched"
| "expand (WholeMatch # ps) matched = matched @ expand ps matched"

text \<open>
  The scan over the text. The pattern is one of the eight placeholder keys, none of
  them empty.
\<close>

function sub_all :: "string \<Rightarrow> part list \<Rightarrow> string \<Rightarrow> string" where
  "sub_all ph parts [] = []"
| "sub_all ph parts (c # cs) =
     (if ph \<noteq> [] \<and> ci_prefix ph (c # cs)
      then expand parts (take (length ph) (c # cs))
             @ sub_all ph parts (drop (length ph) (c # cs))
      else c # sub_all ph parts cs)"
  by pat_completeness auto
termination
  by (relation "measure (\<lambda>(ph, parts, s). length s)") (auto simp: neq_Nil_conv)

definition re_sub :: "string \<Rightarrow> string \<Rightarrow> string \<Rightarrow> pyerror + string" where
  "re_sub ph repl text =
     (case parse_template repl of
        Inl e \<Rightarrow> Inl e
      | Inr parts \<Rightarrow> Inr (sub_all ph parts text))"

subsection \<open>The replacement loop and the extension\<close>

text \<open>\<^verbatim>\<open>x or d\<close> on an optional string: \<^verbatim>\<open>None\<close> and the empty string are false.\<close>

definition py_or :: "string option \<Rightarrow> string \<Rightarrow> string" where
  "py_or x d = (case x of None \<Rightarrow> d | Some s \<Rightarrow> if s = [] then d else s)"

text \<open>
  The dictionary \<^verbatim>\<open>replacements\<close>, in insertion order. The quality is passed as it
  came from \<^verbatim>\<open>extract_quality\<close>; a \<^verbatim>\<open>None\<close> there makes \<^verbatim>\<open>re.sub\<close> raise
  \<^verbatim>\<open>TypeError\<close>.
\<close>

definition replacements ::
  "string option \<Rightarrow> string option \<Rightarrow> string option \<Rightarrow> string option
     \<Rightarrow> (string \<times> string option) list" where
  "replacements season episode quality audio_info =
     [(''{season}'', Some (py_or season ''XX'')),
      (''{episode}'', Some (py_or episode ''XX'')),
      (''{quality}'', quality),
      (''{audio}'', Some (py_or audio_info ''Unknown'')),
      (''Season'', Some (py_or season ''XX'')),
      (''Episode'', Some (py_or episode ''XX'')),
      (''QUALITY'', quality),
      (''AUDIO'', Some (py_or audio_info ''Unknown''))]"

fun replace_all :: "(string \<times> string option) list \<Rightarrow> string \<Rightarrow> pyerror + string" where
  "replace_all [] format_template = Inr format_template"
| "replace_all ((placeholder, v) # rest) format_template =
     (case v of
        None \<Rightarrow> Inl TypeError
      | Some repl \<Rightarrow>
          (case re_sub placeholder repl format_template of
             Inl e \<Rightarrow> Inl e
           | Inr t \<Rightarrow> replace_all rest t))"

text \<open>
  \<^verbatim>\<open>os.path.splitext\<close> (POSIX): the extension starts at the last dot of the last path
  component, unless only dots come before it there.
\<close>

fun rfind :: "char \<Rightarrow> string \<Rightarrow> int" where
  "rfind x [] = -1"
| "rfind x (c # cs) =
     (let r = rfind x cs in if r \<ge> 0 then r + 1 else if c = x then 0 else -1)"

definition splitext :: "string \<Rightarrow> string \<times> string" where
  "splitext p =
     (let sepIndex = rfind CHR ''/'' p; dotIndex = rfind CHR ''.'' p
      in if dotIndex > sepIndex
            \<and> (\<exists>i \<in> set [nat (sepIndex + 1) ..< nat dotIndex]. p ! i \<noteq> CHR ''.'')
         then (take (nat dotIndex) p, drop (nat dotIndex) p)
         else (p, []))"

datatype media_type = Document | Video | Audio

definition extension :: "string \<Rightarrow> media_type \<Rightarrow> string" where
  "extension file_name media =
     (if snd (splitext file_name) \<noteq> [] then snd (splitext file_name)
      else if media = Video then ''.mp4'' else ''.mp3'')"



section \<open>The duplicate guard\<close>

text \<open>
  \<^verbatim>\<open>datetime.now()\<close> is a number of microseconds. The difference of two of them is a
  \<^verbatim>\<open>timedelta\<close>, kept as days, seconds (0 to 86399) and microseconds; its attribute
  \<^verbatim>\<open>seconds\<close> is the middle component.
\<close>

definition td_seconds :: "int \<Rightarrow> int" where
  "td_seconds d = (d mod 86400000000) div 1000000"

text \<open>
  Lines 243 to 247, on the dictionary \<^verbatim>\<open>renaming_operations\<close>: the result is whether the
  handler goes on, and the dictionary afterwards.
\<close>

definition duplicate_check ::
  "(string \<rightharpoonup> int) \<Rightarrow> string \<Rightarrow> int \<Rightarrow> bool \<times> (string \<rightharpoonup> int)" where
  "duplicate_check renaming_operations file_id current_time =
     (case renaming_operations file_id of
        Some t \<Rightarrow>
          if td_seconds (current_time - t) < 10 then (False, renaming_operations)
          else (True, renaming_operations(file_id \<mapsto> current_time))
      | None \<Rightarrow> (True, renaming_operations(file_id \<mapsto> current_time)))"

text \<open>Lines 380 and 381, at the end of a run.\<close>

definition release :: "(string \<rightharpoonup> int) \<Rightarrow> string \<Rightarrow> (string \<rightharpoonup> int)" where
  "release renaming_operations file_id = renaming_operations(file_id := None)"

section \<open>Local files\<close>

datatype kind = File | Dir

type_synonym fs = "string \<rightharpoonup> kind"

definition rmtree :: "fs \<Rightarrow> string \<Rightarrow> fs" where
  "rmtree files p =
     (\<lambda>q. if q = p \<or> take (Suc (length p)) q = p @ ''/'' then None else files q)"

text \<open>
  \<^verbatim>\<open>cleanup_files\<close>: \<open>failing\<close> holds the paths whose removal raises; the exception is
  logged inside the loop and the loop goes on.
\<close>

fun cleanup_files :: "string set \<Rightarrow> fs \<Rightarrow> string option list \<Rightarrow> fs" where
  "cleanup_files failing files [] = files"
| "cleanup_files failing files (path # paths) =
     cleanup_files failing
       (case path of
          None \<Rightarrow> files
        | Some p \<Rightarrow>
            if p = [] then files
            else (case files p of
                    None \<Rightarrow> files
                  | Some File \<Rightarrow> if p \<in> failing then files else files(p := None)
                  | Some Dir \<Rightarrow> if p \<in> failing then files else rmtree files p))
       paths"

text \<open>
  \<^verbatim>\<open>process_thumbnail\<close>: \<open>image_ok\<close> says whether opening, resizing and saving the
  image succeed.
\<close>

definition process_thumbnail ::
  "bool \<Rightarrow> string set \<Rightarrow> fs \<Rightarrow> string option \<Rightarrow> string option \<times> fs" where
  "process_thumbnail image_ok failing files thumb_path =
     (case thumb_path of
        None \<Rightarrow> (None, files)
      | Some p \<Rightarrow>
          if p = [] \<or> files p = None then (None, files)
          else if image_ok
            then (Some (p @ ''_processed.jpg''), files(p @ ''_processed.jpg'' \<mapsto> File))
            else (None, cleanup_files failing files [Some p]))"

section \<open>Metadata tagging\<close>

text \<open>
  The external process: the seconds it runs before it exits (\<open>None\<close>: it never exits),
  its return code, the bytes it writes to its standard error, and whether it leaves an
  output file.
\<close>

record process =
  duration :: "nat option"
  returncode :: int
  stderr :: "nat list"
  writes_output :: bool

text \<open>\<^verbatim>\<open>asyncio.wait_for(process.communicate(), timeout)\<close>: \<open>None\<close> is the timeout.\<close>

definition wait_for :: "process \<Rightarrow> nat \<Rightarrow> (int \<times> nat list) option" where
  "wait_for pr timeout =
     (case duration pr of
        None \<Rightarrow> None
      | Some d \<Rightarrow> if d < timeout then Some (returncode pr, stderr pr) else None)"

text \<open>
  \<^verbatim>\<open>add_metadata\<close>, from line 129 on. \<open>ffmpeg_found\<close> is the result of \<^verbatim>\<open>shutil.which\<close>,
  \<open>spawn_error\<close> an exception of \<^verbatim>\<open>create_subprocess_exec\<close>, \<open>decode\<close> is
  \<^verbatim>\<open>bytes.decode\<close> (\<open>None\<close> where it raises). The result is the exception raised, if any,
  and whether the process was killed. The metadata fields and the command line built
  from them do not change what the step does and are left out.
\<close>

definition add_metadata ::
  "bool \<Rightarrow> pyerror option \<Rightarrow> (nat list \<Rightarrow> string option) \<Rightarrow> process
     \<Rightarrow> (pyerror + unit) \<times> bool" where
  "add_metadata ffmpeg_found spawn_error decode pr =
     (if \<not> ffmpeg_found then (Inl (RuntimeError ''FFmpeg not found in PATH''), False)
      else case spawn_error of
        Some e \<Rightarrow> (Inl e, False)
      | None \<Rightarrow>
          (case wait_for pr 300 of
             None \<Rightarrow> (Inl (RuntimeError ''FFmpeg processing timed out''), True)
           | Some (rc, err) \<Rightarrow>
               if rc \<noteq> 0 then
                 (case decode err of
                    None \<Rightarrow> (Inl (UnicodeDecodeError err), False)
                  | Some text \<Rightarrow> (Inl (RuntimeError (''FFmpeg error: '' @ text)), False))
               else (Inr (), False)))"

section \<open>The source-selection callback\<close>

text \<open>
  The preference store holds one document per user, a dictionary from field names to
  values. A setter of \<^verbatim>\<open>Database\<close> updates one field of an existing document and
  catches every exception itself.
\<close>

type_synonym store = "int \<rightharpoonup> (string \<rightharpoonup> string)"

definition database_setters :: "(string \<times> string) list" where
  "database_setters =
     [(''set_thumbnail'', ''file_id''), (''set_caption'', ''caption''),
      (''set_format_template'', ''format_template''), (''set_file_source'', ''file_source''),
      (''set_metadata'', ''metadata''), (''set_title'', ''title''),
      (''set_author'', ''author''), (''set_artist'', ''artist''),
      (''set_audio'', ''audio''), (''set_subtitle'', ''subtitle''),
      (''set_video'', ''video'')]"

definition database_others :: "string list" where
  "database_others =
     [''_client'', ''db'', ''users'', ''new_user'', ''add_user'', ''is_user_exist'',
      ''total_users_count'', ''get_all_users'', ''delete_user'', ''get_thumbnail'',
      ''get_caption'', ''get_format_template'', ''get_file_source'', ''get_metadata'',
      ''get_title'', ''get_author'', ''get_artist'', ''get_audio'', ''get_subtitle'',
      ''get_video'']"

definition update_one :: "store \<Rightarrow> int \<Rightarrow> string \<Rightarrow> string \<Rightarrow> store" where
  "update_one users uid field v =
     (case users uid of
        None \<Rightarrow> users
      | Some doc \<Rightarrow> users(uid \<mapsto> doc(field \<mapsto> v)))"

text \<open>
  \<^verbatim>\<open>codeflixbots.name(uid, v)\<close>: the attribute is looked up first, and a name that the
  class does not define raises \<^verbatim>\<open>AttributeError\<close>. The other attributes are not
  callable with these two arguments.
\<close>

definition call_database :: "string \<Rightarrow> store \<Rightarrow> int \<Rightarrow> string \<Rightarrow> pyerror + store" where
  "call_database name users uid v =
     (case map_of database_setters name of
        Some field \<Rightarrow> Inr (update_one users uid field v)
      | None \<Rightarrow> if name \<in> set database_others then Inl TypeError else Inl AttributeError)"

fun split_on :: "char \<Rightarrow> string \<Rightarrow> string list" where
  "split_on x [] = [[]]"
| "split_on x (c # cs) =
     (if c = x then [] # split_on x cs
      else (case split_on x cs of [] \<Rightarrow> [[c]] | w # ws \<Rightarrow> (c # w) # ws))"

text \<open>
  The filter \<^verbatim>\<open>^source_(filename|caption)$\<close> of the callback; \<^verbatim>\<open>$\<close> also matches
  before a final newline.
\<close>

definition source_filter :: "string \<Rightarrow> bool" where
  "source_filter data =
     (data = ''source_filename'' \<or> data = ''source_caption''
      \<or> data = ''source_filename'' @ [CHR 0x0A] \<or> data = ''source_caption'' @ [CHR 0x0A])"

datatype answer = Extracted_from string | Source_set string | Failed_to_update | Log_error

definition upper :: "char \<Rightarrow> char" where
  "upper c = (if is_lower c then char_of (code c - 32) else c)"

text \<open>
  \<^verbatim>\<open>file_source_callback\<close>: the new store and what the handler sends; \<open>Inl\<close> is an
  exception that leaves the handler.
\<close>

definition file_source_callback ::
  "store \<Rightarrow> string \<Rightarrow> int \<Rightarrow> pyerror + (store \<times> answer list)" where
  "file_source_callback users data user_id =
     (case split_on CHR ''_'' data of
        a # source_type # rest \<Rightarrow>
          (case call_database ''update_file_source'' users user_id source_type of
             Inr users' \<Rightarrow>
               Inr (users', [Extracted_from source_type, Source_set (map upper source_type)])
           | Inl e \<Rightarrow> Inr (users, [Log_error, Failed_to_update]))
      | _ \<Rightarrow> Inl IndexError)"

section \<open>The handler \<^verbatim>\<open>auto_rename_files\<close>\<close>

text \<open>
  The stages of the run. A stage is entered in the trace when the handler reaches the
  code of that stage.
\<close>

datatype stage =
    Init | PreferencesLoaded | DuplicateChecked | ContentChecked | SourceTextSelected
  | Extracted | Rendered | Downloaded | MetadataTagged | ThumbnailPrepared | Uploaded
  | CleanedUp | Errored

text \<open>What the handler sends to the user or the log.\<close>

datatype effect =
    Reply string
  | Edit string
  | Reply_error string pyerror
  | Edit_error string pyerror
  | Delete
  | Sleep nat
  | Log pyerror

record media_file =
  fid :: string
  fname :: "string option"
  thumbs :: "string list"

record message =
  document :: "media_file option"
  video :: "media_file option"
  audio :: "media_file option"
  caption :: "string option"

text \<open>
  The collaborators of one run, each given by what its call returns or raises
  (\<open>Inl\<close>): the preference store, the content check, the clock, the transport, the
  metadata process, the thumbnail, and the paths that cannot be removed.
\<close>

record env =
  get_format_template :: "pyerror + string option"
  get_file_source :: "pyerror + string option"
  check_anti_nsfw :: "pyerror + bool"
  now :: int
  makedirs :: "pyerror option"
  download_media :: "pyerror + unit"
  download_retry :: "pyerror + unit"
  ffmpeg_found :: bool
  spawn_error :: "pyerror option"
  ffmpeg :: process
  decode :: "nat list \<Rightarrow> string option"
  get_caption :: "string option"
  get_thumbnail :: "string option"
  thumb_download :: "pyerror + string option"
  image_ok :: bool
  send :: "pyerror + unit"
  send_retry :: "pyerror + unit"
  remove_fails :: "string set"

text \<open>The local variables of the handler and the effects of the run so far.\<close>

record ctx =
  trace :: "stage list"
  outputs :: "effect list"
  files :: fs
  download_path :: "string option"
  metadata_path :: "string option"
  thumb_path :: "string option"
  msg :: bool
  new_filename :: "string option"
  killed :: bool

definition enter :: "stage \<Rightarrow> ctx \<Rightarrow> ctx" where
  "enter st c = c\<lparr>trace := trace c @ [st]\<rparr>"

definition emit :: "effect list \<Rightarrow> ctx \<Rightarrow> ctx" where
  "emit os c = c\<lparr>outputs := outputs c @ os\<rparr>"

definition path_join :: "string \<Rightarrow> string \<Rightarrow> string" where
  "path_join a b = (case b of [] \<Rightarrow> a @ ''/''
     | c # cs \<Rightarrow> if c = CHR ''/'' then b else a @ ''/'' @ b)"

definition created :: "string option \<Rightarrow> fs \<Rightarrow> fs" where
  "created path fs = (case path of None \<Rightarrow> fs | Some p \<Rightarrow> fs(p \<mapsto> File))"

text \<open>
  Lines 325 to 369, the inner \<^verbatim>\<open>try\<close> of the upload: the thumbnail, then the upload
  with one retry after a rate limit. The result is the exception that leaves the block.
\<close>

definition upload_block :: "env \<Rightarrow> media_type \<Rightarrow> media_file \<Rightarrow> ctx \<Rightarrow> pyerror option \<times> ctx" where
  "upload_block e media mf c0 =
     (let c1 = c0\<lparr>thumb_path := None\<rparr>;
          wanted = (py_or (get_thumbnail e) [] \<noteq> [] \<or> (media = Video \<and> thumbs mf \<noteq> []))
      in case (if wanted then thumb_download e else Inr None) of
           Inl x \<Rightarrow> (Some x, emit [Edit_error ''Upload failed: '' x] c1)
         | Inr raw \<Rightarrow>
             (let (processed, fs') =
                    process_thumbnail (image_ok e) (remove_fails e) (created raw (files c1)) raw;
                  c2 = enter Uploaded
                         (emit [Edit ''**Uploading...**'']
                            (c1\<lparr>thumb_path := processed, files := fs'\<rparr>))
              in case send e of
                   Inr u \<Rightarrow> (None, emit [Delete] c2)
                 | Inl (FloodWait n) \<Rightarrow>
                     (case send_retry e of
                        Inr u \<Rightarrow> (None, emit [Sleep n, Delete] c2)
                      | Inl x \<Rightarrow> (Some x, emit [Sleep n, Edit_error ''Upload failed: '' x] c2))
                 | Inl x \<Rightarrow> (Some x, emit [Edit_error ''Upload failed: '' x] c2)))"

text \<open>Lines 315 to 321, then the upload.\<close>

definition metadata_block :: "env \<Rightarrow> media_type \<Rightarrow> media_file \<Rightarrow> ctx \<Rightarrow> pyerror option \<times> ctx" where
  "metadata_block e media mf c0 =
     (let c1 = enter MetadataTagged (emit [Edit ''**Processing metadata...**''] c0);
          (r, k) = add_metadata (ffmpeg_found e) (spawn_error e) (decode e) (ffmpeg e);
          c2 = c1\<lparr>killed := k,
                  files := (if ffmpeg_found e \<and> spawn_error e = None \<and> writes_output (ffmpeg e)
                            then created (metadata_path c1) (files c1) else files c1)\<rparr>
      in case r of
           Inl x \<Rightarrow> (Some x, emit [Edit_error ''Metadata processing failed: '' x] c2)
         | Inr u \<Rightarrow>
             upload_block e media mf
               (enter ThumbnailPrepared (emit [Edit ''**Preparing upload...**''] c2)))"

text \<open>Lines 294 to 312, then the rest.\<close>

definition download_block :: "env \<Rightarrow> media_type \<Rightarrow> media_file \<Rightarrow> ctx \<Rightarrow> pyerror option \<times> ctx" where
  "download_block e media mf c0 =
     (let c1 = enter Downloaded (emit [Reply ''**Downloading...**''] (c0\<lparr>msg := True\<rparr>));
          got = (\<lambda>c. metadata_block e media mf
                   (c\<lparr>files := created (download_path c) (files c)\<rparr>))
      in case download_media e of
           Inr u \<Rightarrow> got c1
         | Inl (FloodWait n) \<Rightarrow>
             (case download_retry e of
                Inr u \<Rightarrow> got (emit [Sleep n] c1)
              | Inl x \<Rightarrow> (Some x, emit [Sleep n] c1))
         | Inl x \<Rightarrow> (Some x, emit [Edit_error ''Download failed: '' x] c1))"

text \<open>
  Lines 255 to 291 of the \<^verbatim>\<open>try\<close> block, then the rest. A file name or caption that is
  \<^verbatim>\<open>None\<close> makes \<^verbatim>\<open>pattern.search\<close> and \<^verbatim>\<open>os.path.splitext\<close> raise \<^verbatim>\<open>TypeError\<close>.
\<close>

definition try_block ::
  "env \<Rightarrow> string \<Rightarrow> string \<Rightarrow> media_type \<Rightarrow> media_file \<Rightarrow> string option \<Rightarrow> message
     \<Rightarrow> ctx \<Rightarrow> pyerror option \<times> ctx" where
  "try_block e format_template source_type media mf file_name m c0 =
     (let text_to_parse =
            (if source_type = ''caption'' \<and> py_or (caption m) [] \<noteq> [] then caption m
             else file_name);
          c1 = enter Extracted (enter SourceTextSelected c0)
      in case text_to_parse of
           None \<Rightarrow> (Some TypeError, c1)
         | Some text \<Rightarrow>
             (case extract_season_episode text of
                Inl x \<Rightarrow> (Some x, c1)
              | Inr (season, episode) \<Rightarrow>
                  (let quality = extract_quality text;
                       audio_info = extract_audio_info text;
                       c2 = enter Rendered c1
                   in case replace_all (replacements season episode quality audio_info)
                             format_template of
                        Inl x \<Rightarrow> (Some x, c2)
                      | Inr t \<Rightarrow>
                          (case file_name of
                             None \<Rightarrow> (Some TypeError, c2)
                           | Some name \<Rightarrow>
                               (let new = t @ extension name media;
                                    c3 = c2\<lparr>new_filename := Some new,
                                            download_path := Some (path_join ''downloads'' new),
                                            metadata_path := Some (path_join ''metadata'' new)\<rparr>
                                in case makedirs e of
                                     Some x \<Rightarrow> (Some x, c3)
                                   | None \<Rightarrow> download_block e media mf c3)))))"

text \<open>
  The media of the message, as lines 213 to 229 read it: the type, the file and the
  file name.
\<close>

definition file_information :: "message \<Rightarrow> (media_type \<times> media_file \<times> string option) option" where
  "file_information m =
     (case document m of
        Some d \<Rightarrow> Some (Document, d, fname d)
      | None \<Rightarrow>
          (case video m of
             Some v \<Rightarrow> Some (Video, v, Some (py_or (fname v) ''video''))
           | None \<Rightarrow>
               (case audio m of
                  Some a \<Rightarrow> Some (Audio, a, Some (py_or (fname a) ''audio''))
                | None \<Rightarrow> None)))"

definition initial :: "fs \<Rightarrow> ctx" where
  "initial fs = \<lparr>trace = [Init], outputs = [], files = fs, download_path = None,
     metadata_path = None, thumb_path = None, msg = False, new_filename = None,
     killed = False\<rparr>"

text \<open>The \<^verbatim>\<open>except\<close> clause of line 371 and the \<^verbatim>\<open>finally\<close> clause of line 377.\<close>

definition on_exception :: "pyerror option \<Rightarrow> ctx \<Rightarrow> ctx" where
  "on_exception raised c =
     (case raised of
        None \<Rightarrow> c
      | Some x \<Rightarrow>
          emit [Log x, if msg c then Edit_error ''Error: '' x else Reply_error ''Error: '' x]
            (enter Errored c))"

definition finally_block :: "env \<Rightarrow> ctx \<Rightarrow> ctx" where
  "finally_block e c =
     (enter CleanedUp c)\<lparr>files :=
        cleanup_files (remove_fails e) (files c)
          [download_path c, metadata_path c, thumb_path c]\<rparr>"

text \<open>
  The whole handler: the context at the end of the run and the dictionary
  \<^verbatim>\<open>renaming_operations\<close>.
\<close>

definition auto_rename_files ::
  "env \<Rightarrow> (string \<rightharpoonup> int) \<Rightarrow> fs \<Rightarrow> message \<Rightarrow> ctx \<times> (string \<rightharpoonup> int)" where
  "auto_rename_files e renaming_operations fs m =
     (let c0 = initial fs;
          db_error = (\<lambda>x. (emit [Log x,
             Reply ''Error accessing database. Please try again later.''] c0,
             renaming_operations))
      in case get_format_template e of
           Inl x \<Rightarrow> db_error x
         | Inr format_template \<Rightarrow>
         (case get_file_source e of
           Inl x \<Rightarrow> db_error x
         | Inr source \<Rightarrow>
         (let source_type = py_or source ''filename'';
              c1 = enter PreferencesLoaded c0
          in if py_or format_template [] = [] then
               (emit [Reply ''Please set a rename format using /autorename''] c1,
                renaming_operations)
             else case file_information m of
               None \<Rightarrow> (emit [Reply ''Unsupported file type''] c1, renaming_operations)
             | Some (media, mf, file_name) \<Rightarrow>
             (let c2 = enter ContentChecked c1
              in case check_anti_nsfw e of
                   Inl x \<Rightarrow>
                     (emit [Log x, Reply ''Error during content check''] c2,
                      renaming_operations)
                 | Inr True \<Rightarrow> (emit [Reply ''NSFW content detected''] c2, renaming_operations)
                 | Inr False \<Rightarrow>
                 (let c3 = enter DuplicateChecked c2;
                      (go, ops) = duplicate_check renaming_operations (fid mf) (now e)
                  in if \<not> go then (c3, ops)
                     else
                       (let (raised, c4) =
                              try_block e (py_or format_template []) source_type media mf
                                file_name m c3
                        in (finally_block e (on_exception raised c4), release ops (fid mf))))))))"

section \<open>A sample run\<close>

text \<open>
  A run in which every collaborator succeeds: the user has the template
  \<^verbatim>\<open>{season}{episode} {quality} {audio}\<close> and a stored thumbnail, and sends the video
  \<^verbatim>\<open>Anime.S01E05.1080p.Dual.mkv\<close>.
\<close>

definition sample_env :: env where
  "sample_env = \<lparr>get_format_template = Inr (Some ''{season}{episode} {quality} {audio}''),
     get_file_source = Inr (Some ''filename''), check_anti_nsfw = Inr False, now = 0,
     makedirs = None, download_media = Inr (), download_retry = Inr (), ffmpeg_found = True,
     spawn_error = None,
     ffmpeg = \<lparr>duration = Some 3, returncode = 0, stderr = [], writes_output = True\<rparr>,
     decode = (\<lambda>b. Some []), get_caption = None, get_thumbnail = Some ''thumbnail_id'',
     thumb_download = Inr (Some ''downloads/thumb.jpg''), image_ok = True,
     send = Inr (), send_retry = Inr (), remove_fails = {}\<rparr>"

definition sample_message :: message where
  "sample_message = \<lparr>document = None,
     video = Some \<lparr>fid = ''F1'', fname = Some ''Anime.S01E05.1080p.Dual.mkv'', thumbs = []\<rparr>,
     audio = None, caption = None\<rparr>"

definition sample_run :: ctx where
  "sample_run = fst (auto_rename_files sample_env Map.empty Map.empty sample_message)"

section \<open>Rendering as the specification words it\<close>

text \<open>
  The specification describes rendering as one find-and-replace over the template: each
  case variant of a placeholder spelling is replaced by its resolved value, and all other
  text of the template passes through. \<open>one_pass\<close> goes through the template once, from
  left to right; at each position the first spelling of the table that starts there,
  letters compared without regard to case, is replaced by its value.
\<close>

definition find_key :: "(string \<times> string) list \<Rightarrow> string \<Rightarrow> (string \<times> string) option" where
  "find_key tbl s = find (\<lambda>(k, v). k \<noteq> [] \<and> ci_prefix k s) tbl"









section \<open>Notions used in the properties\<close>




text \<open>The stages that the \<^verbatim>\<open>try\<close> block can add to a trace, and the traces of a run.\<close>

definition try_traces :: "stage list list" where
  "try_traces =
     [[SourceTextSelected, Extracted],
      [SourceTextSelected, Extracted, Rendered],
      [SourceTextSelected, Extracted, Rendered, Downloaded],
      [SourceTextSelected, Extracted, Rendered, Downloaded, MetadataTagged],
      [SourceTextSelected, Extracted, Rendered, Downloaded, MetadataTagged,
       ThumbnailPrepared],
      [SourceTextSelected, Extracted, Rendered, Downloaded, MetadataTagged,
       ThumbnailPrepared, Uploaded]]"

definition run_traces :: "stage list list" where
  "run_traces =
     [[Init], [Init, PreferencesLoaded], [Init, PreferencesLoaded, ContentChecked],
      [Init, PreferencesLoaded, ContentChecked, DuplicateChecked]]
     @ concat (map (\<lambda>t.
          [[Init, PreferencesLoaded, ContentChecked, DuplicateChecked] @ t @ [CleanedUp],
           [Init, PreferencesLoaded, ContentChecked, DuplicateChecked] @ t
             @ [Errored, CleanedUp]])
         try_traces)"


text \<open>A text is free of a capital S that is directly followed by a digit.\<close>

fun s_digit_free :: "string \<Rightarrow> bool" where
  "s_digit_free [] = True"
| "s_digit_free [c] = True"
| "s_digit_free (c # d # cs) = (\<not> (c = CHR ''S'' \<and> is_digit d) \<and> s_digit_free (d # cs))"

text \<open>The patterns of the first five entries of \<^verbatim>\<open>SEASON_EPISODE_PATTERNS\<close>.\<close>

definition first_five :: "pattern list" where
  "first_five = [se_re1, se_re2, se_re3, se_re4, se_re5]"

section \<open>Properties\<close>

subsection \<open>The classifiers on the sample file name\<close>

lemma sample_season_episode:
  "extract_season_episode ''Anime.S01E05.1080p.Dual.mkv'' = Inr (Some ''01'', Some ''05'')"
  by code_simp

lemma sample_quality: "extract_quality ''Anime.S01E05.1080p.Dual.mkv'' = Some ''1080p''"
  by code_simp

lemma sample_audio: "extract_audio_info ''Anime.S01E05.1080p.Dual.mkv'' = None"
  by code_simp

lemma sample_replace:
  "replace_all (replacements (Some ''01'') (Some ''05'') (Some ''1080p'') None)
     ''{season}{episode} {quality} {audio}'' = Inr ''0105 1080p Unknown''"
  by code_simp

lemma sample_extension: "extension ''Anime.S01E05.1080p.Dual.mkv'' Video = ''.mkv''"
  by code_simp


subsection \<open>Totality of the classifiers\<close>

text \<open>
  A text that none of the first five patterns matches never reaches a result: the sixth
  entry of the table ends the loop with an exception.
\<close>

lemma no_pattern_raises:
  "\<forall>pt \<in> set first_five. search pt w = None \<Longrightarrow>
   extract_season_episode w = Inl AttributeError"
  by (simp add: first_five_def extract_season_episode_def SEASON_EPISODE_PATTERNS_def)

text \<open>
  C1. The classifiers should return a value for every text. \<^verbatim>\<open>extract_season_episode\<close>
  does not: on the text \<^verbatim>\<open>Movie\<close>, which none of the first five patterns matches, the
  loop calls \<^verbatim>\<open>search\<close> on the tuple of the sixth table entry and raises
  \<^verbatim>\<open>AttributeError\<close> instead of returning the pair of nones.
\<close>

theorem extract_season_episode_raises:
  "extract_season_episode ''Movie'' = Inl AttributeError"
  by code_simp

subsection \<open>Rules 6 and 7\<close>

text \<open>
  C2. A text whose first matching season/episode pattern is rule 6 or rule 7 should give
  season none and episode the matched digits. The text \<^verbatim>\<open>E05\<close> matches none of the
  first five patterns, so the loop reaches the sixth table entry, which is a tuple, and
  the call of its \<^verbatim>\<open>search\<close> method raises \<^verbatim>\<open>AttributeError\<close>: no pair is returned.
\<close>

theorem extract_season_episode_rule6_raises:
  "extract_season_episode ''E05'' = Inl AttributeError"
  by code_simp

subsection \<open>The sample file name, end to end\<close>



text \<open>The handler computes the same name in the sample run.\<close>

lemma sample_new_filename: "new_filename sample_run = Some ''0105 1080p Unknown.mkv''"
  unfolding sample_run_def auto_rename_files_def sample_env_def sample_message_def
  by (simp add: file_information_def py_or_def initial_def enter_def emit_def
      duplicate_check_def try_block_def sample_season_episode sample_quality sample_audio
      sample_replace sample_extension download_block_def metadata_block_def
      upload_block_def add_metadata_def wait_for_def process_thumbnail_def created_def
      on_exception_def finally_block_def Let_def path_join_def)

subsection \<open>The order of the stages\<close>

lemma trace_enter [simp]: "trace (enter st c) = trace c @ [st]"
  by (simp add: enter_def)

lemma trace_emit [simp]: "trace (emit os c) = trace c"
  by (simp add: emit_def)

lemma trace_finally_block [simp]: "trace (finally_block e c) = trace c @ [CleanedUp]"
  by (simp add: finally_block_def)

lemma trace_initial [simp]: "trace (initial fs) = [Init]"
  by (simp add: initial_def)

lemma trace_on_exception:
  "trace (on_exception r c) = trace c \<or> trace (on_exception r c) = trace c @ [Errored]"
  by (cases r) (simp_all add: on_exception_def)

lemma upload_trace:
  "trace (snd (upload_block e media mf c)) = trace c \<or>
   trace (snd (upload_block e media mf c)) = trace c @ [Uploaded]"
  by (auto simp: upload_block_def Let_def
      split: sum.splits pyerror.splits prod.splits option.splits if_splits)

lemma metadata_trace:
  "\<exists>t \<in> {[MetadataTagged], [MetadataTagged, ThumbnailPrepared],
      [MetadataTagged, ThumbnailPrepared, Uploaded]}.
     trace (snd (metadata_block e media mf c)) = trace c @ t"
proof -
  obtain r k where
    rk: "add_metadata (ffmpeg_found e) (spawn_error e) (decode e) (ffmpeg e) = (r, k)"
    by (cases "add_metadata (ffmpeg_found e) (spawn_error e) (decode e) (ffmpeg e)") auto
  show ?thesis
  proof (cases r)
    case (Inl x)
    then show ?thesis using rk
      by (simp add: metadata_block_def Let_def)
  next
    case (Inr u)
    let ?c1 = "enter MetadataTagged (emit [Edit ''**Processing metadata...**''] c)"
    let ?c = "enter ThumbnailPrepared (emit [Edit ''**Preparing upload...**'']
       (?c1\<lparr>killed := k,
          files := (if ffmpeg_found e \<and> spawn_error e = None \<and> writes_output (ffmpeg e)
             then created (metadata_path ?c1) (files ?c1) else files ?c1)\<rparr>))"
    have eq: "metadata_block e media mf c = upload_block e media mf ?c"
      using rk Inr by (simp add: metadata_block_def Let_def)
    have "trace ?c = trace c @ [MetadataTagged, ThumbnailPrepared]"
      by simp
    then show ?thesis
      using upload_trace [of e media mf ?c] unfolding eq by auto
  qed
qed

lemma download_step:
  "trace (snd (download_block e media mf c)) = trace c @ [Downloaded] \<or>
   (\<exists>c'. download_block e media mf c = metadata_block e media mf c'
      \<and> trace c' = trace c @ [Downloaded])"
  by (cases "download_media e"; cases "download_retry e")
     (auto simp: download_block_def Let_def split: pyerror.splits intro!: exI)

lemma download_trace:
  "\<exists>t \<in> {[Downloaded], [Downloaded, MetadataTagged],
      [Downloaded, MetadataTagged, ThumbnailPrepared],
      [Downloaded, MetadataTagged, ThumbnailPrepared, Uploaded]}.
     trace (snd (download_block e media mf c)) = trace c @ t"
proof -
  from download_step [of e media mf c] consider
      (stop) "trace (snd (download_block e media mf c)) = trace c @ [Downloaded]"
    | (go) c' where "download_block e media mf c = metadata_block e media mf c'"
        and "trace c' = trace c @ [Downloaded]"
    by blast
  then show ?thesis
  proof cases
    case stop
    then show ?thesis by simp
  next
    case go
    from metadata_trace [of e media mf c'] obtain t where
      "t \<in> {[MetadataTagged], [MetadataTagged, ThumbnailPrepared],
         [MetadataTagged, ThumbnailPrepared, Uploaded]}"
      "trace (snd (metadata_block e media mf c')) = trace c' @ t"
      by blast
    with go show ?thesis by auto
  qed
qed

lemma try_step:
  "trace (snd (try_block e tpl src media mf name m c))
     = trace c @ [SourceTextSelected, Extracted] \<or>
   trace (snd (try_block e tpl src media mf name m c))
     = trace c @ [SourceTextSelected, Extracted, Rendered] \<or>
   (\<exists>c'. try_block e tpl src media mf name m c = download_block e media mf c'
      \<and> trace c' = trace c @ [SourceTextSelected, Extracted, Rendered])"
  by (auto simp: try_block_def Let_def split: sum.splits option.splits prod.splits
      intro!: exI)

lemma try_trace:
  "\<exists>t \<in> set try_traces.
     trace (snd (try_block e tpl src media mf name m c)) = trace c @ t"
proof -
  from try_step [of e tpl src media mf name m c] consider
      (a) "trace (snd (try_block e tpl src media mf name m c))
             = trace c @ [SourceTextSelected, Extracted]"
    | (b) "trace (snd (try_block e tpl src media mf name m c))
             = trace c @ [SourceTextSelected, Extracted, Rendered]"
    | (go) c' where "try_block e tpl src media mf name m c = download_block e media mf c'"
        and "trace c' = trace c @ [SourceTextSelected, Extracted, Rendered]"
    by blast
  then show ?thesis
  proof cases
    case a
    then show ?thesis by (simp add: try_traces_def)
  next
    case b
    then show ?thesis by (simp add: try_traces_def)
  next
    case go
    from download_trace [of e media mf c'] obtain t where
      "t \<in> {[Downloaded], [Downloaded, MetadataTagged],
         [Downloaded, MetadataTagged, ThumbnailPrepared],
         [Downloaded, MetadataTagged, ThumbnailPrepared, Uploaded]}"
      "trace (snd (download_block e media mf c')) = trace c' @ t"
      by blast
    with go show ?thesis by (auto simp: try_traces_def)
  qed
qed

lemma run_step:
  "trace (fst (auto_rename_files e ops fs m))
     \<in> {[Init], [Init, PreferencesLoaded], [Init, PreferencesLoaded, ContentChecked],
         [Init, PreferencesLoaded, ContentChecked, DuplicateChecked]} \<or>
   (\<exists>tpl src media mf name c.
      fst (auto_rename_files e ops fs m) =
        finally_block e (on_exception (fst (try_block e tpl src media mf name m c))
          (snd (try_block e tpl src media mf name m c)))
      \<and> trace c = [Init, PreferencesLoaded, ContentChecked, DuplicateChecked])"
  by (auto simp: auto_rename_files_def Let_def split_beta
      split: sum.splits option.splits bool.splits intro!: exI)

lemma run_trace: "trace (fst (auto_rename_files e ops fs m)) \<in> set run_traces"
proof -
  from run_step [of e ops fs m] consider
      (early) "trace (fst (auto_rename_files e ops fs m))
         \<in> {[Init], [Init, PreferencesLoaded], [Init, PreferencesLoaded, ContentChecked],
             [Init, PreferencesLoaded, ContentChecked, DuplicateChecked]}"
    | (run) tpl src media mf name c where
        "fst (auto_rename_files e ops fs m) =
           finally_block e (on_exception (fst (try_block e tpl src media mf name m c))
             (snd (try_block e tpl src media mf name m c)))"
        "trace c = [Init, PreferencesLoaded, ContentChecked, DuplicateChecked]"
    by blast
  then show ?thesis
  proof cases
    case early
    then show ?thesis by (auto simp: run_traces_def)
  next
    case run
    from try_trace [of e tpl src media mf name m c] obtain t where
      t: "t \<in> set try_traces"
        "trace (snd (try_block e tpl src media mf name m c)) = trace c @ t"
      by blast
    from trace_on_exception [of "fst (try_block e tpl src media mf name m c)"
        "snd (try_block e tpl src media mf name m c)"]
    have "trace (fst (auto_rename_files e ops fs m)) = trace c @ t @ [CleanedUp]
        \<or> trace (fst (auto_rename_files e ops fs m)) = trace c @ t @ [Errored, CleanedUp]"
      using run(1) t(2) by auto
    then show ?thesis
      using t(1) run(2) by (auto simp: run_traces_def)
  qed
qed




subsection \<open>The duplicate guard\<close>

lemma guard_within_window:
  "ops f = Some t \<Longrightarrow> t \<le> n \<Longrightarrow> n - t < 10000000 \<Longrightarrow>
   duplicate_check ops f n = (False, ops)"
  by (simp add: duplicate_check_def td_seconds_def)

lemma guard_after_window:
  "ops f = Some t \<Longrightarrow> 10000000 \<le> n - t \<Longrightarrow> n - t < 86400000000 \<Longrightarrow>
   duplicate_check ops f n = (True, ops(f \<mapsto> n))"
  by (simp add: duplicate_check_def td_seconds_def)

lemma guard_after_release:
  "duplicate_check (release ops f) f n = (True, (release ops f)(f \<mapsto> n))"
  by (simp add: duplicate_check_def release_def)

text \<open>
  C5. A check ten or more seconds after the recorded submission should return true.
  The guard compares the \<^verbatim>\<open>seconds\<close> component of the difference, which starts again
  at zero after each full day: a check exactly one day after the recorded time returns
  false.
\<close>

theorem guard_one_day_later:
  "fst (duplicate_check (ops(f \<mapsto> t)) f (t + 86400000000)) = False"
  by (simp add: duplicate_check_def td_seconds_def)

subsection \<open>Cleanup\<close>

text \<open>
  A run that gets past the duplicate check ends with the cleanup, whatever happens in
  between; in the sample run the cleanup removes the downloaded file, the tagged file
  and the processed thumbnail.
\<close>

lemma started_run_cleans_up:
  "SourceTextSelected \<in> set (trace (fst (auto_rename_files e ops fs m))) \<Longrightarrow>
   last (trace (fst (auto_rename_files e ops fs m))) = CleanedUp"
  using run_trace [of e ops fs m]
  unfolding run_traces_def try_traces_def
  by auto

lemma sample_run_removes_others:
  "files sample_run ''downloads/0105 1080p Unknown.mkv'' = None
   \<and> files sample_run ''metadata/0105 1080p Unknown.mkv'' = None
   \<and> files sample_run ''downloads/thumb.jpg_processed.jpg'' = None"
  unfolding sample_run_def auto_rename_files_def sample_env_def sample_message_def
  by (simp add: file_information_def py_or_def initial_def enter_def emit_def
      duplicate_check_def try_block_def sample_season_episode sample_quality sample_audio
      sample_replace sample_extension download_block_def metadata_block_def
      upload_block_def add_metadata_def wait_for_def process_thumbnail_def created_def
      on_exception_def finally_block_def Let_def path_join_def)

text \<open>
  C8. On every exit of a run that passed the guard, cleanup should delete every local
  file the run created. In the sample run the thumbnail is downloaded to
  \<^verbatim>\<open>downloads/thumb.jpg\<close> and processed; the variable \<^verbatim>\<open>thumb_path\<close> then names the
  processed copy only, and the downloaded file is still there after the run.
\<close>

theorem sample_run_leaves_thumbnail:
  "files sample_run ''downloads/thumb.jpg'' = Some File"
  unfolding sample_run_def auto_rename_files_def sample_env_def sample_message_def
  by (simp add: file_information_def py_or_def initial_def enter_def emit_def
      duplicate_check_def try_block_def sample_season_episode sample_quality sample_audio
      sample_replace sample_extension download_block_def metadata_block_def
      upload_block_def add_metadata_def wait_for_def process_thumbnail_def created_def
      on_exception_def finally_block_def Let_def path_join_def)

subsection \<open>Metadata tagging\<close>



subsection \<open>The source-selection callback\<close>

text \<open>
  C10. Whenever the callback runs, its call of \<^verbatim>\<open>update_file_source\<close> fails, because
  the store has no such method; the handler logs the error and answers with the
  failure message, and the store is as it was.
\<close>

theorem file_source_callback_fails:
  "source_filter data \<Longrightarrow>
   file_source_callback users data user_id = Inr (users, [Log_error, Failed_to_update])"
  unfolding source_filter_def
  by (auto simp: file_source_callback_def call_database_def database_setters_def
      database_others_def)

theorem file_source_callback_fails_witness:
  "source_filter ''source_caption''
   \<and> file_source_callback [7 \<mapsto> [''file_source'' \<mapsto> ''filename'']] ''source_caption'' 7
       = Inr ([7 \<mapsto> [''file_source'' \<mapsto> ''filename'']], [Log_error, Failed_to_update])"
  using file_source_callback_fails
    [of "''source_caption''" "[7 \<mapsto> [''file_source'' \<mapsto> ''filename'']]" 7]
  by (simp add: source_filter_def)

subsection \<open>The first matching pattern\<close>

lemma cls_digit [simp]: "cls_match ic (In [Dig]) = is_digit"
  by (rule ext) simp

lemma cls_space [simp]: "cls_match ic (In [Spc]) = is_space"
  by (rule ext) simp

lemma match_S_digits_empty [simp]:
  "match_re False (Seq (lit ''S'') (Seq (Grp i digits1) R)) k (p, [], g) = None"
  by simp

lemma match_S_digits_other [simp]:
  "x \<noteq> CHR ''S'' \<Longrightarrow>
   match_re False (Seq (lit ''S'') (Seq (Grp i digits1) R)) k (p, x # xs, g) = None"
  by simp

lemma match_S_digits_none [simp]:
  "takeWhile is_digit xs = [] \<Longrightarrow>
   match_re False (Seq (lit ''S'') (Seq (Grp i digits1) R)) k (p, x # xs, g) = None"
  by simp

lemma search_S_digits_free:
  "s_digit_free w \<Longrightarrow>
   search_from False (Seq (lit ''S'') (Seq (Grp i (Many (In [Dig]) (Suc 0) None)) R)) p w = None"
  by (induction w arbitrary: p rule: s_digit_free.induct) auto



lemma se5_free: "s_digit_free w \<Longrightarrow> search se_re5 w = None"
  by (simp add: search_def se_re5_def compile_def search_S_digits_free del: search_from.simps lit.simps)

lemma not_digit_S [simp]: "\<not> is_digit CHR ''S''"
  by (simp add: is_digit_def code_def)



lemma upt_groups2 [simp]: "[Suc 0..<3] = [Suc 0, 2]"
  by (simp add: numeral_3_eq_3 numeral_2_eq_2 upt_conv_Cons)



lemma code_lower_upper: "is_upper c \<Longrightarrow> code (lower c) = code c + 32"
  by (simp add: lower_def is_upper_def code_def)




lemma lower_S [simp]: "lower CHR ''S'' = CHR ''s''"
  by code_simp


lemma lower_E [simp]: "lower CHR ''E'' = CHR ''e''"
  by code_simp

lemma lower_small [simp]:
  "lower CHR ''e'' = CHR ''e''" "lower CHR ''a'' = CHR ''a''" "lower CHR ''s'' = CHR ''s''"
  "lower CHR ''o'' = CHR ''o''" "lower CHR ''n'' = CHR ''n''" "lower CHR ''p'' = CHR ''p''"
  "lower CHR ''i'' = CHR ''i''" "lower CHR ''d'' = CHR ''d''"
  by code_simp+

lemma class_facts [simp]:
  "is_space CHR '' ''" "\<not> is_space CHR ''1''" "\<not> is_space CHR ''2''"
  "is_digit CHR ''1''" "is_digit CHR ''2''" "\<not> is_digit CHR '' ''"
  by (simp_all add: is_space_def is_digit_def code_def)










subsection \<open>Rendering\<close>







lemma find_key_None:
  "find_key tbl s = None \<Longrightarrow> (k, v) \<in> set tbl \<Longrightarrow> k \<noteq> [] \<Longrightarrow> \<not> ci_prefix k s"
  by (auto simp: find_key_def find_None_iff)






lemma lower_lower [simp]: "lower (lower c) = lower c"
proof (cases "is_upper c")
  case True
  then have "\<not> is_upper (lower c)"
    using code_lower_upper [OF True] by (simp add: is_upper_def)
  then show ?thesis by (simp add: lower_def)
next
  case False
  then show ?thesis by (simp add: lower_def)
qed









lemma find_key_Nil [simp]: "find_key [] s = None"
  by (simp add: find_key_def)





















end
